theory Spec2Isabelle
  imports Main
begin

section \<open>Strings, JSON values and the file system\<close>

text \<open>The decimal rendering of an index inside a template string.\<close>

fun string_of_nat :: "nat \<Rightarrow> string" where
  "string_of_nat n =
     (if n < 10 then [char_of (48 + n)]
      else string_of_nat (n div 10) @ [char_of (48 + n mod 10)])"

declare string_of_nat.simps [simp del]

definition at :: "'a list \<Rightarrow> nat \<Rightarrow> 'a option" where
  "at xs i = (if i < length xs then Some (xs ! i) else None)"

fun join :: "string \<Rightarrow> string list \<Rightarrow> string" where
  "join sep [] = []"
| "join sep [x] = x"
| "join sep (x # y # ys) = x @ sep @ join sep (y # ys)"

definition endsWith :: "string \<Rightarrow> string \<Rightarrow> bool" where
  "endsWith s suffix =
     (length suffix \<le> length s \<and> drop (length s - length suffix) s = suffix)"

definition startsWith :: "string \<Rightarrow> string \<Rightarrow> bool" where
  "startsWith s prefix = (take (length prefix) s = prefix)"

text \<open>
  The pieces of a string between the occurrences of a separator character, as
  \<^verbatim>\<open>split\<close> gives them: a string without the separator is its own single piece.
\<close>

fun split_on :: "char \<Rightarrow> string \<Rightarrow> string list" where
  "split_on c [] = [[]]"
| "split_on c (x # xs) =
     (if x = c then [] # split_on c xs
      else (case split_on c xs of
              [] \<Rightarrow> [[x]]
            | s # ss \<Rightarrow> (x # s) # ss))"

text \<open>
  A value read by \<^verbatim>\<open>JSON.parse\<close>. An object is the list of its members, every key
  once. Of a number only its being zero is ever read.
\<close>

datatype json =
    JNull
  | JBool bool
  | JNum int
  | JStr string
  | JArr "json list"
  | JObj "(string \<times> json) list"

text \<open>
  Reading a member of a value that is not \<^verbatim>\<open>null\<close>: \<open>None\<close> is
  \<^verbatim>\<open>undefined\<close>. None of the keys read here is a member of a string, a number, a
  boolean or an array.
\<close>

fun getProp :: "json \<Rightarrow> string \<Rightarrow> json option" where
  "getProp (JObj members) key = map_of members key"
| "getProp v key = None"

fun truthy :: "json option \<Rightarrow> bool" where
  "truthy None = False"
| "truthy (Some JNull) = False"
| "truthy (Some (JBool b)) = b"
| "truthy (Some (JNum n)) = (n \<noteq> 0)"
| "truthy (Some (JStr s)) = (s \<noteq> [])"
| "truthy (Some (JArr xs)) = True"
| "truthy (Some (JObj members)) = True"

text \<open>A string that may be \<^verbatim>\<open>undefined\<close> is truthy when it is there and not empty.\<close>

fun truthyStr :: "string option \<Rightarrow> bool" where
  "truthyStr None = False"
| "truthyStr (Some s) = (s \<noteq> [])"

text \<open>The error a function of this development can throw without catching it.\<close>

datatype js_error = TypeError

text \<open>The file system: a path is absent, a directory or a file with its content.\<close>

datatype fs_node = Dir | File string

type_synonym filesystem = "string \<rightharpoonup> fs_node"

definition existsSync :: "filesystem \<Rightarrow> string \<Rightarrow> bool" where
  "existsSync fs p = (fs p \<noteq> None)"

text \<open>\<^verbatim>\<open>isFile\<close> catches the error of \<^verbatim>\<open>statSync\<close> on a missing path.\<close>

definition isFile :: "filesystem \<Rightarrow> string \<Rightarrow> bool" where
  "isFile fs p = (case fs p of Some (File c) \<Rightarrow> True | _ \<Rightarrow> False)"

definition readFileSync :: "filesystem \<Rightarrow> string \<Rightarrow> string option" where
  "readFileSync fs p = (case fs p of Some (File c) \<Rightarrow> Some c | _ \<Rightarrow> None)"

subsection \<open>The path module of Node, POSIX flavour\<close>

text \<open>
  A path is normalised segment by segment: empty segments and \<^verbatim>\<open>.\<close> are dropped,
  \<^verbatim>\<open>..\<close> removes the segment before it, and is kept only in a relative path that
  has nothing left to remove.
\<close>

fun normalizeSegments :: "bool \<Rightarrow> string list \<Rightarrow> string list \<Rightarrow> string list" where
  "normalizeSegments allowAboveRoot res [] = res"
| "normalizeSegments allowAboveRoot res (seg # segs) =
     (if seg = [] \<or> seg = ''.'' then normalizeSegments allowAboveRoot res segs
      else if seg = ''..'' then
        (if res \<noteq> [] \<and> last res \<noteq> ''..''
         then normalizeSegments allowAboveRoot (butlast res) segs
         else if allowAboveRoot then normalizeSegments allowAboveRoot (res @ [seg]) segs
         else normalizeSegments allowAboveRoot res segs)
      else normalizeSegments allowAboveRoot (res @ [seg]) segs)"

definition path_normalize :: "string \<Rightarrow> string" where
  "path_normalize p =
     (if p = [] then ''.''
      else
        let isAbsolute = (hd p = CHR ''/'');
            trailingSeparator = (last p = CHR ''/'');
            q = join ''/'' (normalizeSegments (\<not> isAbsolute) [] (split_on CHR ''/'' p))
        in if q = [] then (if isAbsolute then ''/'' else if trailingSeparator then ''./'' else ''.'')
           else let q' = (if trailingSeparator then q @ ''/'' else q)
                in if isAbsolute then ''/'' @ q' else q')"

definition path_join :: "string list \<Rightarrow> string" where
  "path_join args =
     (let parts = filter (\<lambda>a. a \<noteq> []) args
      in if parts = [] then ''.'' else path_normalize (join ''/'' parts))"

text \<open>
  \<^verbatim>\<open>dirname\<close> looks from the end of the path, down to index 1, for the first
  separator that has a character other than a separator after it.
\<close>

fun dirname_scan :: "string \<Rightarrow> nat \<Rightarrow> bool \<Rightarrow> nat option" where
  "dirname_scan p 0 matchedSlash = None"
| "dirname_scan p (Suc i) matchedSlash =
     (if p ! Suc i = CHR ''/''
      then (if \<not> matchedSlash then Some (Suc i) else dirname_scan p i matchedSlash)
      else dirname_scan p i False)"

definition path_dirname :: "string \<Rightarrow> string" where
  "path_dirname p =
     (if p = [] then ''.''
      else
        let hasRoot = (hd p = CHR ''/'')
        in case dirname_scan p (length p - 1) True of
             None \<Rightarrow> (if hasRoot then ''/'' else ''.'')
           | Some e \<Rightarrow> (if hasRoot \<and> e = 1 then ''//'' else take e p))"

text \<open>The last segment of a path, trailing separators set aside.\<close>

definition path_basename :: "string \<Rightarrow> string" where
  "path_basename p =
     (let q = rev (dropWhile (\<lambda>c. c = CHR ''/'') (rev p))
      in rev (takeWhile (\<lambda>c. c \<noteq> CHR ''/'') (rev q)))"

text \<open>
  The extension is the part of the last segment from its last dot on; there is none when
  the segment has no dot, starts with its only dot, or is \<^verbatim>\<open>..\<close>.
\<close>

definition path_extname :: "string \<Rightarrow> string" where
  "path_extname p =
     (let b = path_basename p;
          afterDot = rev (takeWhile (\<lambda>c. c \<noteq> CHR ''.'') (rev b));
          startDot = length b - length afterDot - 1
      in if CHR ''.'' \<notin> set b \<or> startDot = 0 \<or> b = ''..'' then []
         else drop startDot b)"

text \<open>
  \<^verbatim>\<open>relative\<close> resolves both paths against the working directory, drops the
  segments they share and climbs out of what is left of the first.
\<close>

definition path_resolve :: "string \<Rightarrow> string \<Rightarrow> string list" where
  "path_resolve cwd p =
     normalizeSegments False []
       (split_on CHR ''/'' (if p \<noteq> [] \<and> hd p = CHR ''/'' then p else cwd @ ''/'' @ p))"

fun dropCommon :: "string list \<Rightarrow> string list \<Rightarrow> string list \<times> string list" where
  "dropCommon (x # xs) (y # ys) = (if x = y then dropCommon xs ys else (x # xs, y # ys))"
| "dropCommon xs ys = (xs, ys)"

definition path_relative :: "string \<Rightarrow> string \<Rightarrow> string \<Rightarrow> string" where
  "path_relative cwd base target =
     (let (f, t) = dropCommon (path_resolve cwd base) (path_resolve cwd target)
      in join ''/'' (replicate (length f) ''..'' @ t))"

section \<open>Single-file-component blocks\<close>

text \<open>
  The blocks of a parsed component file, as the handlers of
  \<^verbatim>\<open>serverPluginVue.ts\<close> read them. An attribute value is a string or the
  constant \<^verbatim>\<open>true\<close>. The attribute object is kept as an association list in
  insertion order, the order in which \<^verbatim>\<open>Object.keys\<close> lists it; an object has
  every key once.
\<close>

datatype attr_value = AttrTrue | AttrStr string

record SFCBlock =
  content :: string
  attrs :: "(string \<times> attr_value) list"

text \<open>
  A style block adds the two flags the reload handler reads. \<^verbatim>\<open>scoped\<close> is only
  tested for truthiness, so an absent flag is \<open>False\<close>; \<^verbatim>\<open>module\<close> is tested
  against \<^verbatim>\<open>null\<close>, so absence is \<open>None\<close>.
\<close>

record SFCStyleBlock = SFCBlock +
  scoped :: bool
  module :: "attr_value option"

record SFCDescriptor =
  template :: "SFCBlock option"
  script :: "SFCBlock option"
  styles :: "SFCStyleBlock list"

subsection \<open>isEqualBlock\<close>

fun isEqualBlock :: "('a SFCBlock_scheme) option \<Rightarrow> ('b SFCBlock_scheme) option \<Rightarrow> bool" where
  "isEqualBlock None None = True"
| "isEqualBlock None (Some b) = False"
| "isEqualBlock (Some a) None = False"
| "isEqualBlock (Some a) (Some b) =
     (if length (content a) \<noteq> length (content b) then False
      else if content a \<noteq> content b then False
      else
        let keysA = map fst (attrs a);
            keysB = map fst (attrs b)
        in if length keysA \<noteq> length keysB then False
           else list_all (\<lambda>key. map_of (attrs a) key = map_of (attrs b) key) keysA)"

section \<open>The compilation cache\<close>

text \<open>
  \<^verbatim>\<open>vueCache\<close> is an LRU cache of at most 65535 entries keyed by file path. The
  cache is a list of entries, most recently used first: a read moves the entry to the
  front, a write puts it at the front and drops what no longer fits at the far end.
\<close>

type_synonym SFCStyleCompileResults = string

record CacheEntry =
  ce_descriptor :: "SFCDescriptor option"
  ce_template :: "string option"
  ce_script :: "string option"
  ce_styles :: "SFCStyleCompileResults list"

type_synonym 'v LRUCache = "(string \<times> 'v) list"

definition lru_max :: nat where
  "lru_max = 65535"

definition lru_remove :: "string \<Rightarrow> 'v LRUCache \<Rightarrow> 'v LRUCache" where
  "lru_remove k c = filter (\<lambda>e. fst e \<noteq> k) c"

definition lru_get :: "'v LRUCache \<Rightarrow> string \<Rightarrow> 'v option \<times> 'v LRUCache" where
  "lru_get c k =
     (case map_of c k of
        None \<Rightarrow> (None, c)
      | Some v \<Rightarrow> (Some v, (k, v) # lru_remove k c))"

definition lru_set :: "'v LRUCache \<Rightarrow> string \<Rightarrow> 'v \<Rightarrow> 'v LRUCache" where
  "lru_set c k v = take lru_max ((k, v) # lru_remove k c)"

definition lru_del :: "'v LRUCache \<Rightarrow> string \<Rightarrow> 'v LRUCache" where
  "lru_del c k = lru_remove k c"

section \<open>Notifications and diagnostics\<close>

datatype payload_type = vue_reload | vue_rerender | style_update | style_remove

record HMRPayload =
  ptype :: payload_type
  path :: string
  payload_id :: "string option"
  timestamp :: nat

text \<open>
  Console and debug output is recorded as one entry per call: the channel and the
  variable parts of the message, not the formatted and coloured line.
\<close>

datatype diagnostic =
    DebugSfc string string
  | DebugHmr string string
  | DebugCss string string
  | ConsoleLog string string
  | ConsoleError string string

section \<open>The server state the two plugins share\<close>

record ProcessedEntry =
  css :: string
  modules :: "(string \<times> string) list option"

record server_state =
  vueCache :: "CacheEntry LRUCache"
  srcImportMap :: "string \<rightharpoonup> string"
  processedCSS :: "string \<rightharpoonup> ProcessedEntry"
  sent :: "HMRPayload list"
  diagnostics :: "diagnostic list"

text \<open>
  What the modules of this development import from modules outside it. From the
  utilities: the request path without its query and hash, the test for a query, the
  package lookup of Node from a base directory and the cached file read (\<open>None\<close> is
  the call that throws). With them, the working directory of the process, against which
  a relative path is resolved.
\<close>

record utils =
  cleanUrl :: "string \<Rightarrow> string"
  queryRE_test :: "string \<Rightarrow> bool"
  resolveFrom :: "filesystem \<Rightarrow> string \<Rightarrow> string \<Rightarrow> string option"
  cachedRead :: "string \<Rightarrow> string option"
  cwd :: string

text \<open>
  An error of the component parser. Its location is optional: the parser reports some
  errors without one.
\<close>

record Position =
  pos_offset :: nat
  pos_line :: nat
  pos_column :: nat

record SourceLocation =
  loc_start :: Position
  loc_end :: Position

record CompilerError =
  err_message :: string
  err_loc :: "SourceLocation option"

text \<open>
  The component plugin is given the project root and the resolver, of which it calls the
  reverse direction; it imports the component parser (the descriptor and the errors),
  the printer of the source around an error and the hash of a public path.
\<close>

record vue_env = utils +
  root :: string
  fileToRequest :: "string \<Rightarrow> string"
  compiler_parse :: "string \<Rightarrow> string \<Rightarrow> SFCDescriptor \<times> CompilerError list"
  generateCodeFrame :: "string \<Rightarrow> nat \<Rightarrow> nat \<Rightarrow> string"
  hash_sum :: "string \<Rightarrow> string"

definition send :: "HMRPayload \<Rightarrow> server_state \<Rightarrow> server_state" where
  "send p st = st\<lparr>sent := sent st @ [p]\<rparr>"

definition diag :: "diagnostic \<Rightarrow> server_state \<Rightarrow> server_state" where
  "diag d st = st\<lparr>diagnostics := diagnostics st @ [d]\<rparr>"

subsection \<open>parseSFC\<close>

text \<open>
  The content argument is optional; an absent and an empty content are both falsy and
  make the function read the file. \<open>None\<close> is the read that throws.
\<close>

definition readContent :: "vue_env \<Rightarrow> string \<Rightarrow> string option \<Rightarrow> string option" where
  "readContent E filePath content0 =
     (if content0 = None \<or> content0 = Some [] then cachedRead E filePath else content0)"

definition emptyEntry :: CacheEntry where
  "emptyEntry = \<lparr>ce_descriptor = None, ce_template = None, ce_script = None, ce_styles = []\<rparr>"

text \<open>
  The report of the parse errors, one after the other. Each error is printed with the
  line and column at which it starts, read without a test for the location being
  there: the first error without a location throws a type error, after the errors
  before it have been printed.
\<close>

fun reportErrors ::
  "vue_env \<Rightarrow> string \<Rightarrow> string \<Rightarrow> CompilerError list \<Rightarrow> server_state
     \<Rightarrow> js_error option \<times> server_state" where
  "reportErrors E filePath src [] st = (None, st)"
| "reportErrors E filePath src (e # es) st =
     (case err_loc e of
        None \<Rightarrow> (Some TypeError, st)
      | Some l \<Rightarrow>
          reportErrors E filePath src es
            (diag (ConsoleError filePath
                     (generateCodeFrame E src (pos_offset (loc_start l)) (pos_offset (loc_end l)) @
                      [CHR 0x0A]))
               (diag (ConsoleError filePath (err_message e))
                  (diag (ConsoleError filePath
                           (filePath @ '':'' @ string_of_nat (pos_line (loc_start l)) @ '':'' @
                            string_of_nat (pos_column (loc_start l))))
                     st))))"

definition allLocated :: "CompilerError list \<Rightarrow> bool" where
  "allLocated errs = list_all (\<lambda>e. err_loc e \<noteq> None) errs"

text \<open>
  The result is the descriptor, nothing when the file cannot be read, or the error
  thrown by the report; the descriptor is cached after the report only.
\<close>

definition parseSFC ::
  "vue_env \<Rightarrow> string \<Rightarrow> string option \<Rightarrow> server_state
     \<Rightarrow> (js_error + SFCDescriptor option) \<times> server_state" where
  "parseSFC E filePath content0 st =
     (let (cached, c1) = lru_get (vueCache st) filePath;
          st1 = st\<lparr>vueCache := c1\<rparr>
      in case (case cached of None \<Rightarrow> None | Some ce \<Rightarrow> ce_descriptor ce) of
           Some d \<Rightarrow> (Inr (Some d), diag (DebugSfc filePath ''parse cache hit'') st1)
         | None \<Rightarrow>
            (case readContent E filePath content0 of
               None \<Rightarrow> (Inr None, st1)
             | Some src \<Rightarrow>
                 let (descriptor, errors) = compiler_parse E src filePath;
                     (thrown, st2) =
                       (if errors \<noteq> []
                        then reportErrors E filePath src errors
                               (diag (ConsoleError filePath ''SFC parse error'') st1)
                        else (None, st1))
                 in case thrown of
                      Some err \<Rightarrow> (Inl err, st2)
                    | None \<Rightarrow>
                        let entry = (case cached of None \<Rightarrow> emptyEntry | Some ce \<Rightarrow> ce);
                            st3 = st2\<lparr>vueCache :=
                                    lru_set (vueCache st2) filePath
                                      (entry\<lparr>ce_descriptor := Some descriptor\<rparr>)\<rparr>
                        in (Inr (Some descriptor), diag (DebugSfc filePath ''parsed'') st3)))"

subsection \<open>handleVueReload\<close>

text \<open>The four messages the handler sends.\<close>

definition reloadPayload :: "string \<Rightarrow> nat \<Rightarrow> HMRPayload" where
  "reloadPayload publicPath ts =
     \<lparr>ptype = vue_reload, path = publicPath, payload_id = None, timestamp = ts\<rparr>"

definition rerenderPayload :: "string \<Rightarrow> nat \<Rightarrow> HMRPayload" where
  "rerenderPayload publicPath ts =
     \<lparr>ptype = vue_rerender, path = publicPath, payload_id = None, timestamp = ts\<rparr>"

definition styleUpdatePayload :: "string \<Rightarrow> nat \<Rightarrow> nat \<Rightarrow> HMRPayload" where
  "styleUpdatePayload publicPath ts i =
     \<lparr>ptype = style_update, path = publicPath @ ''?type=style&index='' @ string_of_nat i,
      payload_id = None, timestamp = ts\<rparr>"

definition styleRemovePayload :: "string \<Rightarrow> string \<Rightarrow> nat \<Rightarrow> nat \<Rightarrow> HMRPayload" where
  "styleRemovePayload publicPath styleId ts i =
     \<lparr>ptype = style_remove, path = publicPath,
      payload_id = Some (styleId @ ''-'' @ string_of_nat i), timestamp = ts\<rparr>"

text \<open>The console names the file by its path relative to the root.\<close>

definition sendReload :: "vue_env \<Rightarrow> string \<Rightarrow> string \<Rightarrow> nat \<Rightarrow> server_state \<Rightarrow> server_state" where
  "sendReload E publicPath filePath ts st =
     diag (ConsoleLog (path_relative (cwd E) (root E) filePath) ''updated. (reload)'')
       (send (reloadPayload publicPath ts) st)"

text \<open>
  The body of the callback over the next style list: the block at the same index of the
  previous list is missing, or it differs.
\<close>

definition styleUpdateStep ::
  "string \<Rightarrow> nat \<Rightarrow> SFCStyleBlock list \<Rightarrow> SFCStyleBlock list \<Rightarrow> nat
     \<Rightarrow> bool \<times> server_state \<Rightarrow> bool \<times> server_state" where
  "styleUpdateStep publicPath ts prevStyles nextStyles i acc =
     (if at prevStyles i = None \<or> \<not> isEqualBlock (at prevStyles i) (at nextStyles i)
      then (True, send (styleUpdatePayload publicPath ts i) (snd acc))
      else acc)"

text \<open>The body of the callback over the previous blocks past the end of the next list.\<close>

definition styleRemoveStep ::
  "string \<Rightarrow> string \<Rightarrow> nat \<Rightarrow> SFCStyleBlock list \<Rightarrow> nat
     \<Rightarrow> bool \<times> server_state \<Rightarrow> bool \<times> server_state" where
  "styleRemoveStep publicPath styleId ts nextStyles i acc =
     (True, send (styleRemovePayload publicPath styleId ts (i + length nextStyles)) (snd acc))"

text \<open>
  The handler returns nothing; its result here is the error with which it rejects, if
  it does. The state is the one reached when it returns or throws.
\<close>

definition handleVueReload ::
  "vue_env \<Rightarrow> string \<Rightarrow> nat \<Rightarrow> string option \<Rightarrow> server_state
     \<Rightarrow> (js_error + unit) \<times> server_state" where
  "handleVueReload E filePath ts content0 st =
     (let publicPath = fileToRequest E filePath;
          (cacheEntry, c1) = lru_get (vueCache st) filePath;
          st1 = diag (DebugHmr filePath ''busting Vue cache'') (st\<lparr>vueCache := c1\<rparr>);
          st2 = st1\<lparr>vueCache := lru_del (vueCache st1) filePath\<rparr>;
          (parsed, st3) = parseSFC E filePath content0 st2
      in case parsed of
           Inl err \<Rightarrow> (Inl err, st3)
         | Inr None \<Rightarrow> (Inr (), st3)
         | Inr (Some d) \<Rightarrow>
            (Inr (),
             (case (case cacheEntry of None \<Rightarrow> None | Some ce \<Rightarrow> ce_descriptor ce) of
               None \<Rightarrow> diag (DebugHmr filePath ''no existing descriptor found'') st3
             | Some prevDescriptor \<Rightarrow>
                if \<not> isEqualBlock (script d) (script prevDescriptor)
                then sendReload E publicPath filePath ts st3
                else
                  let needRerender0 = \<not> isEqualBlock (template d) (template prevDescriptor);
                      styleId = hash_sum E publicPath;
                      prevStyles = styles prevDescriptor;
                      nextStyles = styles d
                  in if list_ex (\<lambda>s. module s \<noteq> None) prevStyles \<or>
                        list_ex (\<lambda>s. module s \<noteq> None) nextStyles
                     then sendReload E publicPath filePath ts st3
                     else
                       let needRerender =
                             (needRerender0 \<or> list_ex scoped prevStyles \<noteq> list_ex scoped nextStyles);
                           acc1 = fold (styleUpdateStep publicPath ts prevStyles nextStyles)
                                    [0..<length nextStyles] (False, st3);
                           acc2 = fold (styleRemoveStep publicPath styleId ts nextStyles)
                                    [0..<length (drop (length nextStyles) prevStyles)] acc1;
                           didUpdateStyle = fst acc2;
                           st5 = (if needRerender
                                  then send (rerenderPayload publicPath ts) (snd acc2)
                                  else snd acc2);
                           updateType = (if needRerender then [''template''] else []) @
                                        (if didUpdateStyle then [''style''] else [])
                       in if updateType \<noteq> []
                          then diag (ConsoleLog (path_relative (cwd E) (root E) filePath)
                                 (''updated. ('' @ join '' & '' updateType @ '')'')) st5
                          else st5)))"

text \<open>
  The state in which the file is parsed again: the read of the cache has been recorded
  and the entry of the file is deleted.
\<close>

definition busted :: "string \<Rightarrow> server_state \<Rightarrow> server_state" where
  "busted filePath st =
     (diag (DebugHmr filePath ''busting Vue cache'')
        (st\<lparr>vueCache := snd (lru_get (vueCache st) filePath)\<rparr>))
     \<lparr>vueCache :=
        lru_del (vueCache (diag (DebugHmr filePath ''busting Vue cache'')
                   (st\<lparr>vueCache := snd (lru_get (vueCache st) filePath)\<rparr>))) filePath\<rparr>"

section \<open>The change handler of the stylesheet plugin\<close>

text \<open>
  The stylesheet plugin is given the same context as the component plugin. It imports
  the test for a preprocessor language, the parser of a query string, of which the
  handler prints the \<^verbatim>\<open>index\<close> member of the query it is given (\<open>None\<close> when the
  import has no query), and it calls the script reload handler of the watcher.
\<close>

record css_env = vue_env +
  cssPreprocessLangRE_test :: "string \<Rightarrow> bool"
  qs_index :: "string option \<Rightarrow> string"
  handleJSReload :: "string \<Rightarrow> nat \<Rightarrow> server_state \<Rightarrow> server_state"

text \<open>\<^verbatim>\<open>styleImport.split('?', 2)[1]\<close>: the second piece, when there is one.\<close>

definition secondPiece :: "string \<Rightarrow> string option" where
  "secondPiece s = at (take 2 (split_on CHR ''?'' s)) 1"

text \<open>
  The handler of a change event of the watcher; \<open>now\<close> is the clock at the event.
\<close>

definition cssChange :: "css_env \<Rightarrow> string \<Rightarrow> nat \<Rightarrow> server_state \<Rightarrow> server_state" where
  "cssChange E filePath now st =
     (if endsWith filePath ''.css'' \<or> cssPreprocessLangRE_test E filePath then
        let publicPath = fileToRequest E filePath
        in if processedCSS st publicPath = None \<and> srcImportMap st filePath = None
           then diag (DebugCss (path_basename publicPath)
                        ''has changed, but it is not currently in use'') st
           else
             (case srcImportMap st filePath of
                Some styleImport \<Rightarrow>
                  let st1 = st\<lparr>vueCache := lru_del (vueCache st) filePath\<rparr>;
                      publicPath' = cleanUrl E styleImport;
                      index = qs_index E (secondPiece styleImport);
                      st2 = diag (ConsoleLog publicPath' ''updated. (style)'') st1
                  in send \<lparr>ptype = style_update,
                           path = publicPath' @ ''?type=style&index='' @ index,
                           payload_id = None, timestamp = now\<rparr> st2
              | None \<Rightarrow>
                  if endsWith filePath ''.module.css'' then handleJSReload E filePath now st
                  else
                    send \<lparr>ptype = style_update, path = publicPath, payload_id = None, timestamp = now\<rparr>
                      (st\<lparr>processedCSS := (processedCSS st)(publicPath := None)\<rparr>))
      else st)"

section \<open>The resolver\<close>

text \<open>
  What the resolver imports besides the utilities: the test for the module namespace
  prefix of a request and the request without that prefix, the directory of the
  optimized dependencies of a root (absent when there is none), the separator
  normalisation of a relative path and the JSON parser (\<open>None\<close> is the parse that
  throws).
\<close>

record resolver_env = utils +
  moduleRE_test :: "string \<Rightarrow> bool"
  moduleRE_strip :: "string \<Rightarrow> string"
  resolveOptimizedCacheDir :: "string \<Rightarrow> string option"
  slash :: "string \<Rightarrow> string"
  JSON_parse :: "string \<Rightarrow> json option"

record NodeModuleInfo =
  entry :: "string option"
  entryFilePath :: "string option"
  pkg :: json

text \<open>
  The tables of the module and the two tables it imports from the module resolution
  plugin. Warnings of the console are kept; the debug channel of the resolver is not
  modelled.
\<close>

record resolver_state =
  idToFileMap :: "string \<rightharpoonup> string"
  fileToRequestMap :: "string \<rightharpoonup> string"
  viteOptimizedMap :: "string \<rightharpoonup> string"
  nodeModulesInfoMap :: "string \<rightharpoonup> NodeModuleInfo"
  nodeModulesFileMap :: "string \<rightharpoonup> string"
  console :: "diagnostic list"

text \<open>A custom resolver: each of its three functions is optional.\<close>

record Resolver =
  custom_requestToFile :: "(string \<Rightarrow> string \<Rightarrow> string option) option"
  custom_fileToRequest :: "(string \<Rightarrow> string \<Rightarrow> string option) option"
  custom_alias :: "(string \<Rightarrow> string option) option"

definition supportedExts :: "string list" where
  "supportedExts = [''.mjs'', ''.js'', ''.ts'', ''.jsx'', ''.tsx'', ''.json'']"

subsection \<open>resolveExt\<close>

text \<open>
  The match of \<^verbatim>\<open>/\?.*$/\<close>: the part from the first question mark after which no
  line break follows.
\<close>

fun queryMatch :: "string \<Rightarrow> string option" where
  "queryMatch [] = None"
| "queryMatch (c # cs) =
     (if c = CHR ''?'' \<and> list_all (\<lambda>x. x \<noteq> CHR 0x0A \<and> x \<noteq> CHR 0x0D) cs
      then Some (c # cs) else queryMatch cs)"

fun inferExt :: "filesystem \<Rightarrow> string \<Rightarrow> string list \<Rightarrow> string" where
  "inferExt fs cleanId [] = []"
| "inferExt fs cleanId (ext # exts) =
     (if isFile fs (cleanId @ ext) then ext
      else if isFile fs (path_join [cleanId, ''/index'' @ ext]) then ''/index'' @ ext
      else inferExt fs cleanId exts)"

definition resolveExt :: "'a utils_scheme \<Rightarrow> filesystem \<Rightarrow> string \<Rightarrow> string option" where
  "resolveExt X fs ident =
     (let cleanId = cleanUrl X ident
      in if \<not> isFile fs cleanId then
           let inferredExt = inferExt fs cleanId supportedExts;
               query = (case queryMatch ident of Some q \<Rightarrow> q | None \<Rightarrow> []);
               resolved = cleanId @ inferredExt @ query
           in if resolved \<noteq> ident then Some inferredExt else None
         else None)"

subsection \<open>resolveOptimizedModule\<close>

definition resolveOptimizedModule ::
  "'a resolver_env_scheme \<Rightarrow> filesystem \<Rightarrow> string \<Rightarrow> string \<Rightarrow> resolver_state
     \<Rightarrow> string option \<times> resolver_state" where
  "resolveOptimizedModule X fs rootDir ident st =
     (if truthyStr (viteOptimizedMap st ident) then (viteOptimizedMap st ident, st)
      else
        (case resolveOptimizedCacheDir X rootDir of
           None \<Rightarrow> (None, st)
         | Some cacheDir \<Rightarrow>
             if cacheDir = [] then (None, st)
             else
               let file = path_join [cacheDir, ident]
               in if existsSync fs file
                  then (Some file, st\<lparr>viteOptimizedMap := (viteOptimizedMap st)(ident \<mapsto> file)\<rparr>)
                  else (None, st)))"

subsection \<open>resolveNodeModule and resolveNodeModuleFile\<close>

text \<open>
  The entry point named by a manifest: the value of \<^verbatim>\<open>entryPoint\<close> after the
  two conditionals, \<open>JNull\<close> when the manifest names none. The manifest is not
  \<^verbatim>\<open>null\<close>.
\<close>

definition entryPointOf :: "json \<Rightarrow> json" where
  "entryPointOf manifest =
     (let entryPoint =
            (if truthy (getProp manifest ''exports'') then
               (case getProp manifest ''exports'' of
                  Some (JStr s) \<Rightarrow> Some (JStr s)
                | Some exports \<Rightarrow>
                    if truthy (getProp exports ''.'') then
                      (case getProp exports ''.'' of
                         Some (JStr s) \<Rightarrow> Some (JStr s)
                       | Some dot \<Rightarrow> getProp dot ''import''
                       | None \<Rightarrow> None)
                    else None
                | None \<Rightarrow> None)
             else None)
      in if \<not> truthy entryPoint then
           (if truthy (getProp manifest ''module'') then
              (case getProp manifest ''module'' of Some v \<Rightarrow> v | None \<Rightarrow> JNull)
            else if truthy (getProp manifest ''main'') then
              (case getProp manifest ''main'' of Some v \<Rightarrow> v | None \<Rightarrow> JNull)
            else JNull)
         else (case entryPoint of Some v \<Rightarrow> v | None \<Rightarrow> JNull))"

text \<open>
  Reading a member of a \<^verbatim>\<open>null\<close> manifest and joining a path with an entry point
  that is not a string throw a type error, which no handler of the function catches.
\<close>

definition resolveNodeModule ::
  "'a resolver_env_scheme \<Rightarrow> filesystem \<Rightarrow> string \<Rightarrow> string \<Rightarrow> resolver_state
     \<Rightarrow> (js_error + NodeModuleInfo option) \<times> resolver_state" where
  "resolveNodeModule X fs rootDir ident st =
     (case nodeModulesInfoMap st ident of
        Some cached \<Rightarrow> (Inr (Some cached), st)
      | None \<Rightarrow>
          let pkgPath = resolveFrom X fs rootDir (ident @ ''/package.json'')
          in if \<not> truthyStr pkgPath then (Inr None, st)
             else
               (case pkgPath of
                  None \<Rightarrow> (Inr None, st)
                | Some pkgPath \<Rightarrow>
                   (case readFileSync fs pkgPath of
                      None \<Rightarrow> (Inr None, st)
                    | Some source \<Rightarrow>
                       (case JSON_parse X source of
                          None \<Rightarrow> (Inr None, st)
                        | Some JNull \<Rightarrow> (Inl TypeError, st)
                        | Some manifest \<Rightarrow>
                           (case entryPointOf manifest of
                              JStr entryPoint \<Rightarrow>
                                if entryPoint = [] then
                                  let result = \<lparr>entry = None, entryFilePath = None, pkg = manifest\<rparr>
                                  in (Inr (Some result),
                                      st\<lparr>nodeModulesInfoMap := (nodeModulesInfoMap st)(ident \<mapsto> result)\<rparr>)
                                else
                                  let entryFilePath0 = path_join [path_dirname pkgPath, entryPoint];
                                      ext = resolveExt X fs entryFilePath0;
                                      entryPoint1 =
                                        (if truthyStr ext then entryPoint @ (case ext of Some e \<Rightarrow> e | None \<Rightarrow> [])
                                         else entryPoint);
                                      entryFilePath1 =
                                        (if truthyStr ext then entryFilePath0 @ (case ext of Some e \<Rightarrow> e | None \<Rightarrow> [])
                                         else entryFilePath0);
                                      entryPoint2 = path_join [ident, entryPoint1];
                                      st1 = st\<lparr>nodeModulesFileMap :=
                                               (nodeModulesFileMap st)(entryPoint2 \<mapsto> entryFilePath1)\<rparr>;
                                      result = \<lparr>entry = Some entryPoint2,
                                                entryFilePath = Some entryFilePath1, pkg = manifest\<rparr>
                                  in (Inr (Some result),
                                      st1\<lparr>nodeModulesInfoMap := (nodeModulesInfoMap st1)(ident \<mapsto> result)\<rparr>)
                            | entryPoint \<Rightarrow>
                                if truthy (Some entryPoint) then (Inl TypeError, st)
                                else
                                  let result = \<lparr>entry = None, entryFilePath = None, pkg = manifest\<rparr>
                                  in (Inr (Some result),
                                      st\<lparr>nodeModulesInfoMap := (nodeModulesInfoMap st)(ident \<mapsto> result)\<rparr>))))))"

definition resolveNodeModuleFile ::
  "'a resolver_env_scheme \<Rightarrow> filesystem \<Rightarrow> string \<Rightarrow> string \<Rightarrow> resolver_state
     \<Rightarrow> string option \<times> resolver_state" where
  "resolveNodeModuleFile X fs rootDir ident st =
     (if truthyStr (nodeModulesFileMap st ident) then (nodeModulesFileMap st ident, st)
      else
        (case resolveFrom X fs rootDir ident of
           Some resolved \<Rightarrow>
             (Some resolved, st\<lparr>nodeModulesFileMap := (nodeModulesFileMap st)(ident \<mapsto> resolved)\<rparr>)
         | None \<Rightarrow> (None, st)))"

subsection \<open>The default resolution in both directions\<close>

definition defaultRequestToFile ::
  "'a resolver_env_scheme \<Rightarrow> filesystem \<Rightarrow> string \<Rightarrow> string \<Rightarrow> resolver_state
     \<Rightarrow> string \<times> resolver_state" where
  "defaultRequestToFile X fs publicPath rootDir st =
     (let plain = (\<lambda>st'.
            let publicDirPath = path_join [rootDir, ''public'', drop 1 publicPath]
            in if existsSync fs publicDirPath then (publicDirPath, st')
               else (path_join [rootDir, drop 1 publicPath], st'))
      in if moduleRE_test X publicPath then
           let ident = moduleRE_strip X publicPath
           in if truthyStr (idToFileMap st ident)
              then (case idToFileMap st ident of Some f \<Rightarrow> (f, st) | None \<Rightarrow> plain st)
              else
                let (optimizedModule, st1) = resolveOptimizedModule X fs rootDir ident st
                in if truthyStr optimizedModule
                   then (case optimizedModule of Some f \<Rightarrow> (f, st1) | None \<Rightarrow> plain st1)
                   else
                     let (nodeModule, st2) = resolveNodeModuleFile X fs rootDir ident st1
                     in if truthyStr nodeModule
                        then (case nodeModule of
                                Some f \<Rightarrow> (f, st2\<lparr>idToFileMap := (idToFileMap st2)(ident \<mapsto> f)\<rparr>)
                              | None \<Rightarrow> plain st2)
                        else plain st2
         else plain st)"


subsection \<open>createResolver\<close>

text \<open>
  The first truthy answer of the custom resolvers, in order; a resolver without the
  function is passed over.
\<close>

fun firstCustom :: "('r \<Rightarrow> (string option) option) \<Rightarrow> 'r list \<Rightarrow> string option" where
  "firstCustom ask [] = None"
| "firstCustom ask (r # rs) =
     (case ask r of
        Some answer \<Rightarrow> if truthyStr answer then answer else firstCustom ask rs
      | None \<Rightarrow> firstCustom ask rs)"

record ResolvedRequest =
  rr_filePath :: string
  rr_ext :: "string option"

definition resolveRequest ::
  "'a resolver_env_scheme \<Rightarrow> filesystem \<Rightarrow> string \<Rightarrow> Resolver list \<Rightarrow> string \<Rightarrow> resolver_state
     \<Rightarrow> ResolvedRequest \<times> resolver_state" where
  "resolveRequest X fs rootDir resolvers publicPath st =
     (let (resolved, st1) =
            (case firstCustom (\<lambda>r. map_option (\<lambda>f. f publicPath rootDir) (custom_requestToFile r))
                    resolvers of
               Some f \<Rightarrow> (f, st)
             | None \<Rightarrow> defaultRequestToFile X fs publicPath rootDir st);
          e = resolveExt X fs resolved
      in (\<lparr>rr_filePath = (if truthyStr e then resolved @ (case e of Some x \<Rightarrow> x | None \<Rightarrow> [])
                        else resolved),
           rr_ext = e\<rparr>, st1))"

text \<open>
  The functions of the resolver that \<^verbatim>\<open>createResolver\<close> returns, but for the
  alias lookup, which nothing below calls.
\<close>

definition requestToFile ::
  "'a resolver_env_scheme \<Rightarrow> filesystem \<Rightarrow> string \<Rightarrow> Resolver list \<Rightarrow> string \<Rightarrow> resolver_state
     \<Rightarrow> string \<times> resolver_state" where
  "requestToFile X fs rootDir resolvers publicPath st =
     (let (r, st1) = resolveRequest X fs rootDir resolvers publicPath st in (rr_filePath r, st1))"

definition resolver_resolveExt ::
  "'a resolver_env_scheme \<Rightarrow> filesystem \<Rightarrow> string \<Rightarrow> Resolver list \<Rightarrow> string \<Rightarrow> resolver_state
     \<Rightarrow> string option \<times> resolver_state" where
  "resolver_resolveExt X fs rootDir resolvers publicPath st =
     (let (r, st1) = resolveRequest X fs rootDir resolvers publicPath st in (rr_ext r, st1))"


subsection \<open>resolveBareModuleRequest\<close>

definition jsSrcRE_test :: "string \<Rightarrow> bool" where
  "jsSrcRE_test s =
     (endsWith s ''.js'' \<or> endsWith s ''.jsx'' \<or> endsWith s ''.ts'' \<or> endsWith s ''.tsx'' \<or>
      endsWith s ''.vue'' \<or> endsWith s ''.mjs'')"

text \<open>
  The first or the second group of \<^verbatim>\<open>deepImportRE\<close>: the package of a deep import,
  with its scope when it has one.
\<close>

definition deepImportRE_match :: "string \<Rightarrow> string option" where
  "deepImportRE_match s =
     (case s of
        [] \<Rightarrow> None
      | c # cs \<Rightarrow>
          if c \<noteq> CHR ''@'' then
            (if dropWhile (\<lambda>x. x \<noteq> CHR ''/'') cs \<noteq> []
             then Some (c # takeWhile (\<lambda>x. x \<noteq> CHR ''/'') cs) else None)
          else
            let scope = takeWhile (\<lambda>x. x \<noteq> CHR ''/'') cs;
                rest = dropWhile (\<lambda>x. x \<noteq> CHR ''/'') cs;
                name = takeWhile (\<lambda>x. x \<noteq> CHR ''/'') (drop 1 rest);
                rest' = dropWhile (\<lambda>x. x \<noteq> CHR ''/'') (drop 1 rest)
            in if scope \<noteq> [] \<and> rest \<noteq> [] \<and> name \<noteq> [] \<and> rest' \<noteq> []
               then Some (c # scope @ ''/'' @ name) else None)"

definition warn :: "diagnostic \<Rightarrow> resolver_state \<Rightarrow> resolver_state" where
  "warn d st = st\<lparr>console := console st @ [d]\<rparr>"

definition resolveBareModuleRequest ::
  "'a resolver_env_scheme \<Rightarrow> filesystem \<Rightarrow> string \<Rightarrow> string \<Rightarrow> string \<Rightarrow> resolver_state
     \<Rightarrow> (js_error + string) \<times> resolver_state" where
  "resolveBareModuleRequest X fs rootDir ident importer st =
     (let (optimized, st1) = resolveOptimizedModule X fs rootDir ident st
      in if truthyStr optimized then (Inr ident, st1)
         else
           (case resolveNodeModule X fs rootDir ident st1 of
              (Inl e, st2) \<Rightarrow> (Inl e, st2)
            | (Inr (Some pkgInfo), st2) \<Rightarrow>
                if \<not> truthyStr (entry pkgInfo)
                then (Inr ident,
                      warn (ConsoleError ident ''does not have default entry defined in package.json'') st2)
                else (Inr (case entry pkgInfo of Some e \<Rightarrow> e | None \<Rightarrow> ident), st2)
            | (Inr None, st2) \<Rightarrow>
                let e = path_extname ident
                in if e = [] \<or> jsSrcRE_test e then
                     (case deepImportRE_match ident of
                        Some depId \<Rightarrow>
                          let (dep, st3) = resolveOptimizedModule X fs rootDir depId st2
                          in if truthyStr dep
                             then (Inr ident,
                                   warn (ConsoleError ident (''Avoid deep import: '' @ depId @
                                           '' is a pre-optimized dependency. Importer: '' @ importer)) st3)
                             else (Inr ident, st3)
                      | None \<Rightarrow> (Inr ident, st2))
                   else (Inr (ident @ (if queryRE_test X ident then ''&import'' else ''?import'')), st2)))"

subsection \<open>The entry point precedence in the words of the specification\<close>

text \<open>
  The specification lists six rules, the first defined one winning: a string
  \<^verbatim>\<open>exports\<close>, a string \<^verbatim>\<open>exports["."]\<close>, \<^verbatim>\<open>exports["."].import\<close>,
  \<^verbatim>\<open>module\<close>, \<^verbatim>\<open>main\<close>, none. A field counts as defined when it is present
  with a truthy value: an empty string, \<^verbatim>\<open>null\<close>, \<^verbatim>\<open>false\<close> and zero do not
  name an entry point.
\<close>

definition definedString :: "json option \<Rightarrow> bool" where
  "definedString v = (case v of Some (JStr s) \<Rightarrow> s \<noteq> [] | _ \<Rightarrow> False)"

definition memberOf :: "json option \<Rightarrow> string \<Rightarrow> json option" where
  "memberOf v key = (case v of Some obj \<Rightarrow> getProp obj key | None \<Rightarrow> None)"

definition orNull :: "json option \<Rightarrow> json" where
  "orNull v = (case v of Some x \<Rightarrow> x | None \<Rightarrow> JNull)"

definition spec_entryPoint :: "json \<Rightarrow> json" where
  "spec_entryPoint manifest =
     (let exports = getProp manifest ''exports'';
          dot = memberOf exports ''.'';
          import = memberOf dot ''import''
      in if definedString exports then orNull exports
         else if definedString dot then orNull dot
         else if truthy import then orNull import
         else if truthy (getProp manifest ''module'') then orNull (getProp manifest ''module'')
         else if truthy (getProp manifest ''main'') then orNull (getProp manifest ''main'')
         else JNull)"

subsection \<open>The calls into the module\<close>

text \<open>
  \<^verbatim>\<open>viteOptimizedMap\<close>, \<^verbatim>\<open>nodeModulesInfoMap\<close> and
  \<^verbatim>\<open>nodeModulesFileMap\<close> are private to the module: they change only through a
  call of one of its exported functions, each with the file system of its moment.
\<close>

datatype resolver_call =
    CallRequestToFile filesystem string "Resolver list" string
  | CallResolveExt filesystem string "Resolver list" string
  | CallBareModuleRequest filesystem string string string
  | CallOptimizedModule filesystem string string
  | CallNodeModule filesystem string string
  | CallNodeModuleFile filesystem string string

fun perform :: "'a resolver_env_scheme \<Rightarrow> resolver_call \<Rightarrow> resolver_state \<Rightarrow> resolver_state" where
  "perform X (CallRequestToFile fs rootDir resolvers publicPath) st =
     snd (requestToFile X fs rootDir resolvers publicPath st)"
| "perform X (CallResolveExt fs rootDir resolvers publicPath) st =
     snd (resolver_resolveExt X fs rootDir resolvers publicPath st)"
| "perform X (CallBareModuleRequest fs rootDir ident importer) st =
     snd (resolveBareModuleRequest X fs rootDir ident importer st)"
| "perform X (CallOptimizedModule fs rootDir ident) st =
     snd (resolveOptimizedModule X fs rootDir ident st)"
| "perform X (CallNodeModule fs rootDir ident) st =
     snd (resolveNodeModule X fs rootDir ident st)"
| "perform X (CallNodeModuleFile fs rootDir ident) st =
     snd (resolveNodeModuleFile X fs rootDir ident st)"

section \<open>Concrete inputs\<close>

definition ex_block :: "string \<Rightarrow> (string \<times> attr_value) list \<Rightarrow> SFCBlock" where
  "ex_block c as = \<lparr>content = c, attrs = as\<rparr>"

definition ex_style :: "string \<Rightarrow> attr_value option \<Rightarrow> SFCStyleBlock" where
  "ex_style c m =
     \<lparr>content = c, attrs = (case m of None \<Rightarrow> [] | Some v \<Rightarrow> [(''module'', v)]),
      scoped = False, module = m\<rparr>"

definition ex_descriptor :: "string \<Rightarrow> SFCStyleBlock list \<Rightarrow> SFCDescriptor" where
  "ex_descriptor js ss =
     \<lparr>template = Some (ex_block ''<p>hi</p>'' []), script = Some (ex_block js []), styles = ss\<rparr>"


definition ex_unlocated_error :: CompilerError where
  "ex_unlocated_error =
     \<lparr>err_message = ''<script setup> cannot use the src attribute'', err_loc = None\<rparr>"

definition ex_env_with :: "CompilerError list \<Rightarrow> SFCDescriptor \<Rightarrow> vue_env" where
  "ex_env_with errs d =
     \<lparr>cleanUrl = takeWhile (\<lambda>c. c \<noteq> CHR ''?'' \<and> c \<noteq> CHR ''#''),
      queryRE_test = (\<lambda>s. CHR ''?'' \<in> set s),
      resolveFrom = (\<lambda>fs base i. None),
      cachedRead = (\<lambda>f. if f = ''/app/A.vue'' then Some ''changed'' else None),
      cwd = ''/app'',
      root = ''/app'',
      fileToRequest = (\<lambda>f. drop 4 f),
      compiler_parse = (\<lambda>src f. (d, errs)),
      generateCodeFrame = (\<lambda>src a b. take (b - a) (drop a src)),
      hash_sum = (\<lambda>p. ''6f2a'')\<rparr>"


definition ex_entry :: "SFCDescriptor \<Rightarrow> CacheEntry" where
  "ex_entry prev =
     \<lparr>ce_descriptor = Some prev, ce_template = Some ''render'', ce_script = Some ''main'',
      ce_styles = []\<rparr>"

definition ex_state :: "SFCDescriptor \<Rightarrow> server_state" where
  "ex_state prev =
     \<lparr>vueCache = [(''/app/A.vue'', ex_entry prev)],
      srcImportMap = Map.empty, processedCSS = Map.empty, sent = [], diagnostics = []\<rparr>"

definition ex_three :: SFCDescriptor where
  "ex_three = ex_descriptor ''export default {}''
                [ex_style ''.a {}'' None, ex_style ''.b {}'' None, ex_style ''.c {}'' None]"


definition ex_css_env :: css_env where
  "ex_css_env =
     \<lparr>cleanUrl = takeWhile (\<lambda>c. c \<noteq> CHR ''?'' \<and> c \<noteq> CHR ''#''),
      queryRE_test = (\<lambda>s. CHR ''?'' \<in> set s),
      resolveFrom = (\<lambda>fs base i. None),
      cachedRead = (\<lambda>f. None),
      cwd = ''/app'',
      root = ''/app'',
      fileToRequest = (\<lambda>f. drop 4 f),
      compiler_parse = (\<lambda>src f. (\<lparr>template = None, script = None, styles = []\<rparr>, [])),
      generateCodeFrame = (\<lambda>src a b. take (b - a) (drop a src)),
      hash_sum = (\<lambda>p. ''6f2a''),
      cssPreprocessLangRE_test = (\<lambda>f. endsWith f ''.scss'' \<or> endsWith f ''.less''),
      qs_index = (\<lambda>q. ''0''),
      handleJSReload = (\<lambda>f t st. st)\<rparr>"

definition ex_css_state :: server_state where
  "ex_css_state =
     \<lparr>vueCache = [],
      srcImportMap = Map.empty,
      processedCSS = [''/src/used.css'' \<mapsto> \<lparr>css = ''a {}'', modules = None\<rparr>],
      sent = [], diagnostics = []\<rparr>"

text \<open>
  A project at \<^verbatim>\<open>/app\<close> with the package \<^verbatim>\<open>foo\<close> installed. The package
  lookup of the example finds a file below \<^verbatim>\<open>node_modules\<close> of the base directory.
\<close>

definition ex_manifest :: json where
  "ex_manifest =
     JObj [(''exports'', JObj [(''.'', JObj [(''import'', JStr ''./a.js'')])]),
           (''main'', JStr ''./b.js'')]"

definition ex_resolver_env :: resolver_env where
  "ex_resolver_env =
     \<lparr>cleanUrl = takeWhile (\<lambda>c. c \<noteq> CHR ''?'' \<and> c \<noteq> CHR ''#''),
      queryRE_test = (\<lambda>s. CHR ''?'' \<in> set s),
      resolveFrom = (\<lambda>fs base i.
         if isFile fs (path_join [base, ''node_modules'', i])
         then Some (path_join [base, ''node_modules'', i]) else None),
      cachedRead = (\<lambda>f. None),
      cwd = ''/app'',
      moduleRE_test = (\<lambda>p. startsWith p ''/@modules/''),
      moduleRE_strip = (\<lambda>p. if startsWith p ''/@modules/'' then drop 10 p else p),
      resolveOptimizedCacheDir = (\<lambda>r. Some (path_join [r, ''node_modules/.vite_opt_cache''])),
      slash = (\<lambda>p. p),
      JSON_parse = (\<lambda>s. if s = ''manifest of foo'' then Some ex_manifest else None)\<rparr>"

definition ex_fs :: filesystem where
  "ex_fs =
     [''/app/node_modules/foo/package.json'' \<mapsto> File ''manifest of foo'',
      ''/app/node_modules/foo/a.js'' \<mapsto> File ''export default 1'',
      ''/app/node_modules/foo/b.js'' \<mapsto> File ''module.exports = 1'']"

definition ex_fs_optimized :: filesystem where
  "ex_fs_optimized = ex_fs(''/app/node_modules/.vite_opt_cache/foo'' \<mapsto> File ''bundle'')"


definition ex_rstate :: resolver_state where
  "ex_rstate =
     \<lparr>idToFileMap = Map.empty, fileToRequestMap = Map.empty, viteOptimizedMap = Map.empty,
      nodeModulesInfoMap = Map.empty, nodeModulesFileMap = Map.empty, console = []\<rparr>"

section \<open>The block-equality rule\<close>

lemma keys_subset_of_agree:
  assumes "list_all (\<lambda>key. map_of xs key = map_of ys key) (map fst xs)"
  shows "set (map fst xs) \<subseteq> set (map fst ys)"
proof
  fix k assume k: "k \<in> set (map fst xs)"
  then have "map_of xs k \<noteq> None" by (simp add: map_of_eq_None_iff)
  moreover from assms k have "map_of xs k = map_of ys k" by (auto simp: list_all_iff)
  ultimately have "map_of ys k \<noteq> None" by simp
  then show "k \<in> set (map fst ys)" by (simp add: map_of_eq_None_iff)
qed

lemma keys_equal_of_agree:
  assumes agree: "list_all (\<lambda>key. map_of xs key = map_of ys key) (map fst xs)"
    and len: "length xs = length ys"
    and dx: "distinct (map fst xs)" and dy: "distinct (map fst ys)"
  shows "set (map fst xs) = set (map fst ys)"
proof -
  have sub: "set (map fst xs) \<subseteq> set (map fst ys)" using agree by (rule keys_subset_of_agree)
  have "card (set (map fst xs)) = length xs" using dx by (metis distinct_card length_map)
  moreover have "card (set (map fst ys)) = length ys" using dy by (metis distinct_card length_map)
  ultimately have "card (set (map fst ys)) \<le> card (set (map fst xs))" using len by simp
  with sub show ?thesis by (simp add: card_seteq)
qed

lemma length_of_keys_equal:
  assumes "set (map fst xs) = set (map fst ys)"
    and dx: "distinct (map fst xs)" and dy: "distinct (map fst ys)"
  shows "length xs = length ys"
proof -
  have "length xs = card (set (map fst xs))" using dx by (metis distinct_card length_map)
  also have "\<dots> = card (set (map fst ys))" using assms(1) by simp
  also have "\<dots> = length ys" using dy by (metis distinct_card length_map)
  finally show ?thesis .
qed

text \<open>
  Claim C8. Two absent blocks are equal and an absent block never equals a present one.
  Two present blocks, each an object with every attribute key once, are equal exactly
  when their contents are the same string, their attribute keys are the same set
  (whatever the order of the keys) and every key they share has the same value in both.
\<close>

theorem isEqualBlock_rule:
  assumes dx: "distinct (map fst (attrs x))" and dy: "distinct (map fst (attrs y))"
  shows "isEqualBlock None None \<and>
         \<not> isEqualBlock (Some x) None \<and>
         \<not> isEqualBlock None (Some y) \<and>
         (isEqualBlock (Some x) (Some y) \<longleftrightarrow>
            content x = content y \<and>
            set (map fst (attrs x)) = set (map fst (attrs y)) \<and>
            (\<forall>k \<in> set (map fst (attrs x)) \<inter> set (map fst (attrs y)).
               map_of (attrs x) k = map_of (attrs y) k))"
proof -
  have "isEqualBlock (Some x) (Some y) \<longleftrightarrow>
            content x = content y \<and>
            set (map fst (attrs x)) = set (map fst (attrs y)) \<and>
            (\<forall>k \<in> set (map fst (attrs x)) \<inter> set (map fst (attrs y)).
               map_of (attrs x) k = map_of (attrs y) k)" (is "?L \<longleftrightarrow> ?R")
  proof
    assume L: ?L
    then have c: "content x = content y" by (simp split: if_splits)
    from L have len: "length (attrs x) = length (attrs y)" by (simp add: Let_def split: if_splits)
    from L have agree: "list_all (\<lambda>key. map_of (attrs x) key = map_of (attrs y) key) (map fst (attrs x))"
      by (simp add: Let_def split: if_splits)
    have keys: "set (map fst (attrs x)) = set (map fst (attrs y))"
      using agree len dx dy by (rule keys_equal_of_agree)
    from agree have "\<forall>k \<in> set (map fst (attrs x)). map_of (attrs x) k = map_of (attrs y) k"
      by (simp add: list_all_iff)
    with c keys show ?R by blast
  next
    assume R: ?R
    then have len: "length (attrs x) = length (attrs y)"
      using dx dy length_of_keys_equal by blast
    from R have "list_all (\<lambda>key. map_of (attrs x) key = map_of (attrs y) key) (map fst (attrs x))"
      by (simp add: list_all_iff)
    with R len show ?L by (simp add: Let_def)
  qed
  then show ?thesis by simp
qed

section \<open>The reload handler of a component file\<close>

lemma sent_send [simp]: "sent (send p st) = sent st @ [p]"
  by (simp add: send_def)

lemma sent_diag [simp]: "sent (diag d st) = sent st"
  by (simp add: diag_def)

lemma vueCache_send [simp]: "vueCache (send p st) = vueCache st"
  by (simp add: send_def)

lemma vueCache_diag [simp]: "vueCache (diag d st) = vueCache st"
  by (simp add: diag_def)

lemma sent_reportErrors [simp]:
  "sent (snd (reportErrors E filePath src es st)) = sent st"
  by (induction es arbitrary: st) (simp_all split: option.splits)

lemma vueCache_reportErrors [simp]:
  "vueCache (snd (reportErrors E filePath src es st)) = vueCache st"
  by (induction es arbitrary: st) (simp_all split: option.splits)

lemma fst_reportErrors:
  "fst (reportErrors E filePath src es st) = (if allLocated es then None else Some TypeError)"
  by (induction es arbitrary: st) (auto simp: allLocated_def split: option.splits)

lemma sent_sendReload [simp]:
  "sent (sendReload E publicPath filePath ts st) = sent st @ [reloadPayload publicPath ts]"
  by (simp add: sendReload_def)

lemma vueCache_sendReload [simp]:
  "vueCache (sendReload E publicPath filePath ts st) = vueCache st"
  by (simp add: sendReload_def)

lemma map_of_lru_remove_same [simp]: "map_of (lru_remove k c) k = None"
  by (induction c) (auto simp: lru_remove_def)

lemma map_of_lru_set_same [simp]: "map_of (lru_set c k v) k = Some v"
proof -
  have "0 < lru_max" by (simp add: lru_max_def)
  then obtain n where "lru_max = Suc n" using gr0_implies_Suc by blast
  then have "take lru_max ((k, v) # lru_remove k c) = (k, v) # take n (lru_remove k c)"
    by (metis take_Suc_Cons)
  then show ?thesis by (simp add: lru_set_def)
qed

lemma fst_lru_get [simp]: "fst (lru_get c k) = map_of c k"
  by (simp add: lru_get_def split: option.splits)

lemma map_of_snd_lru_get [simp]: "map_of (snd (lru_get c k)) k = map_of c k"
  by (simp add: lru_get_def split: option.splits)


lemma vueCache_fold_update [simp]:
  "vueCache (snd (fold (styleUpdateStep pp ts P N) is acc)) = vueCache (snd acc)"
  by (induction "is" arbitrary: acc) (simp_all add: styleUpdateStep_def)


lemma vueCache_fold_remove [simp]:
  "vueCache (snd (fold (styleRemoveStep pp sid ts N) is acc)) = vueCache (snd acc)"
  by (induction "is" arbitrary: acc) (simp_all add: styleRemoveStep_def)


text \<open>
  The state in which the diff starts: the entry is gone and the file is parsed anew. The
  parse ends in one of three ways.
\<close>

lemma parseSFC_fresh_props:
  assumes "map_of (vueCache st) filePath = None"
  shows "sent (snd (parseSFC E filePath content0 st)) = sent st"
    and "fst (parseSFC E filePath content0 st) =
           (case readContent E filePath content0 of
              None \<Rightarrow> Inr None
            | Some src \<Rightarrow>
                if allLocated (snd (compiler_parse E src filePath))
                then Inr (Some (fst (compiler_parse E src filePath)))
                else Inl TypeError)"
    and "map_of (vueCache (snd (parseSFC E filePath content0 st))) filePath =
           (case readContent E filePath content0 of
              None \<Rightarrow> None
            | Some src \<Rightarrow>
                if allLocated (snd (compiler_parse E src filePath))
                then Some (emptyEntry\<lparr>ce_descriptor := Some (fst (compiler_parse E src filePath))\<rparr>)
                else None)"
proof -
  have g: "lru_get (vueCache st) filePath = (None, vueCache st)"
    using assms by (simp add: lru_get_def)
  have e: "allLocated []" by (simp add: allLocated_def)
  show "sent (snd (parseSFC E filePath content0 st)) = sent st"
    by (simp add: parseSFC_def g Let_def case_prod_beta split: option.splits)
  show "fst (parseSFC E filePath content0 st) =
           (case readContent E filePath content0 of
              None \<Rightarrow> Inr None
            | Some src \<Rightarrow>
                if allLocated (snd (compiler_parse E src filePath))
                then Inr (Some (fst (compiler_parse E src filePath)))
                else Inl TypeError)"
    using e
    by (auto simp: parseSFC_def g Let_def case_prod_beta fst_reportErrors split: option.splits)
  show "map_of (vueCache (snd (parseSFC E filePath content0 st))) filePath =
           (case readContent E filePath content0 of
              None \<Rightarrow> None
            | Some src \<Rightarrow>
                if allLocated (snd (compiler_parse E src filePath))
                then Some (emptyEntry\<lparr>ce_descriptor := Some (fst (compiler_parse E src filePath))\<rparr>)
                else None)"
    using e assms
    by (auto simp: parseSFC_def g Let_def case_prod_beta fst_reportErrors split: option.splits)
qed

lemma busted_props [simp]:
  "sent (busted filePath st) = sent st"
  "map_of (vueCache (busted filePath st)) filePath = None"
  by (simp_all add: busted_def lru_del_def diag_def)

lemma handleVueReload_unfold:
  "handleVueReload E filePath ts content0 st =
     (let publicPath = fileToRequest E filePath;
          cacheEntry = map_of (vueCache st) filePath;
          parsed = fst (parseSFC E filePath content0 (busted filePath st));
          st3 = snd (parseSFC E filePath content0 (busted filePath st))
      in case parsed of
           Inl err \<Rightarrow> (Inl err, st3)
         | Inr None \<Rightarrow> (Inr (), st3)
         | Inr (Some d) \<Rightarrow>
            (Inr (),
             (case (case cacheEntry of None \<Rightarrow> None | Some ce \<Rightarrow> ce_descriptor ce) of
               None \<Rightarrow> diag (DebugHmr filePath ''no existing descriptor found'') st3
             | Some prevDescriptor \<Rightarrow>
                if \<not> isEqualBlock (script d) (script prevDescriptor)
                then sendReload E publicPath filePath ts st3
                else
                  let needRerender0 = \<not> isEqualBlock (template d) (template prevDescriptor);
                      styleId = hash_sum E publicPath;
                      prevStyles = styles prevDescriptor;
                      nextStyles = styles d
                  in if list_ex (\<lambda>s. module s \<noteq> None) prevStyles \<or>
                        list_ex (\<lambda>s. module s \<noteq> None) nextStyles
                     then sendReload E publicPath filePath ts st3
                     else
                       let needRerender =
                             (needRerender0 \<or> list_ex scoped prevStyles \<noteq> list_ex scoped nextStyles);
                           acc1 = fold (styleUpdateStep publicPath ts prevStyles nextStyles)
                                    [0..<length nextStyles] (False, st3);
                           acc2 = fold (styleRemoveStep publicPath styleId ts nextStyles)
                                    [0..<length (drop (length nextStyles) prevStyles)] acc1;
                           didUpdateStyle = fst acc2;
                           st5 = (if needRerender
                                  then send (rerenderPayload publicPath ts) (snd acc2)
                                  else snd acc2);
                           updateType = (if needRerender then [''template''] else []) @
                                        (if didUpdateStyle then [''style''] else [])
                       in if updateType \<noteq> []
                          then diag (ConsoleLog (path_relative (cwd E) (root E) filePath)
                                 (''updated. ('' @ join '' & '' updateType @ '')'')) st5
                          else st5)))"
  unfolding handleVueReload_def Let_def case_prod_beta busted_def [symmetric] fst_lru_get
  by (rule refl)


text \<open>
  A parse error without a location: the handler rejects with the type error of the
  report, having sent nothing, with the entry deleted and none written.
\<close>

lemma handleVueReload_report_throws:
  assumes "readContent E filePath content0 = Some src"
    and "\<not> allLocated (snd (compiler_parse E src filePath))"
  shows "fst (handleVueReload E filePath ts content0 st) = Inl TypeError"
    and "sent (snd (handleVueReload E filePath ts content0 st)) = sent st"
    and "map_of (vueCache (snd (handleVueReload E filePath ts content0 st))) filePath = None"
  using assms
  by (simp_all add: handleVueReload_unfold Let_def parseSFC_fresh_props)





lemma ptype_payloads [simp]:
  "ptype (reloadPayload pp ts) = vue_reload"
  "ptype (rerenderPayload pp ts) = vue_rerender"
  "ptype (styleUpdatePayload pp ts i) = style_update"
  "ptype (styleRemovePayload pp sid ts i) = style_remove"
  by (simp_all add: reloadPayload_def rerenderPayload_def styleUpdatePayload_def
      styleRemovePayload_def)





section \<open>The theorems at concrete inputs\<close>


theorem isEqualBlock_rule_witness:
  "isEqualBlock (Some (ex_block ''a {}'' [(''lang'', AttrStr ''scss''), (''scoped'', AttrTrue)]))
                (Some (ex_block ''a {}'' [(''scoped'', AttrTrue), (''lang'', AttrStr ''scss'')])) \<and>
   \<not> isEqualBlock (Some (ex_block ''a {}'' [(''lang'', AttrStr ''scss''), (''scoped'', AttrTrue)]))
                (Some (ex_block ''a {}'' [(''scoped'', AttrTrue), (''lang'', AttrStr ''less'')]))"
  using isEqualBlock_rule
          [of "ex_block ''a {}'' [(''lang'', AttrStr ''scss''), (''scoped'', AttrTrue)]"
              "ex_block ''a {}'' [(''scoped'', AttrTrue), (''lang'', AttrStr ''scss'')]"]
  by (simp add: ex_block_def)





text \<open>
  A parse error without a location, on a file with a cached descriptor and a script
  block that is gone: the handler rejects and sends nothing.
\<close>

lemma unlocated_error_rejects:
  "fst (handleVueReload
          (ex_env_with [ex_unlocated_error]
             \<lparr>template = None, script = None, styles = []\<rparr>)
          ''/app/A.vue'' 5 None (ex_state ex_three)) = Inl TypeError \<and>
   sent (snd (handleVueReload
          (ex_env_with [ex_unlocated_error]
             \<lparr>template = None, script = None, styles = []\<rparr>)
          ''/app/A.vue'' 5 None (ex_state ex_three))) = []"
  using handleVueReload_report_throws
          [of "ex_env_with [ex_unlocated_error] \<lparr>template = None, script = None, styles = []\<rparr>"
              "''/app/A.vue''" None "''changed''" 5 "ex_state ex_three"]
  by (simp add: readContent_def ex_env_with_def ex_unlocated_error_def allLocated_def
      ex_state_def)

section \<open>A change of a stylesheet that is not in use\<close>

text \<open>
  Claim C9. A change event on a stylesheet file whose public path has no processed
  entry and whose file path has no recorded source import leaves the state as it was but
  for one more diagnostic: no message is sent, nothing is deleted from a cache. The
  handler has no failing branch, so the event raises no error.
\<close>

theorem unused_stylesheet_skipped:
  assumes sheet: "endsWith filePath ''.css'' \<or> cssPreprocessLangRE_test E filePath"
    and nocache: "processedCSS st (fileToRequest E filePath) = None"
    and noedge: "srcImportMap st filePath = None"
  shows "cssChange E filePath now st =
           st\<lparr>diagnostics := diagnostics st @
                 [DebugCss (path_basename (fileToRequest E filePath))
                    ''has changed, but it is not currently in use'']\<rparr> \<and>
         sent (cssChange E filePath now st) = sent st"
  using assms by (simp add: cssChange_def Let_def diag_def)

theorem unused_stylesheet_skipped_witness:
  "cssChange ex_css_env ''/app/src/unused.css'' 9 ex_css_state =
     ex_css_state\<lparr>diagnostics :=
       [DebugCss ''unused.css'' ''has changed, but it is not currently in use'']\<rparr> \<and>
   sent (cssChange ex_css_env ''/app/src/unused.css'' 9 ex_css_state) = []"
  using unused_stylesheet_skipped [of "''/app/src/unused.css''" ex_css_env ex_css_state 9]
  by (simp add: ex_css_env_def ex_css_state_def endsWith_def path_basename_def)

section \<open>The lookup of optimized dependencies\<close>

lemma path_normalize_nonempty: "path_normalize p \<noteq> []"
  by (simp add: path_normalize_def Let_def)

lemma path_join_nonempty: "path_join args \<noteq> []"
  by (simp add: path_join_def Let_def path_normalize_nonempty)

lemma optimized_result_truthy:
  "resolveOptimizedModule X fs rootDir ident st = (Some file, st') \<Longrightarrow>
     file \<noteq> [] \<and> viteOptimizedMap st' ident = Some file"
  by (auto simp: resolveOptimizedModule_def Let_def path_join_nonempty
      split: if_splits option.splits elim!: truthyStr.elims)

lemma optimized_memo_hit:
  "viteOptimizedMap st ident = Some file \<Longrightarrow> file \<noteq> [] \<Longrightarrow>
     resolveOptimizedModule X fs rootDir ident st = (Some file, st)"
  by (simp add: resolveOptimizedModule_def)

lemma optimized_miss_unchanged:
  "resolveOptimizedModule X fs rootDir ident st = (None, st') \<Longrightarrow> st' = st"
  by (auto simp: resolveOptimizedModule_def Let_def split: if_splits option.splits)

lemma optimized_keeps:
  assumes "viteOptimizedMap st ident = Some file" "file \<noteq> []"
  shows "viteOptimizedMap (snd (resolveOptimizedModule X fs rootDir ident' st)) ident = Some file"
  using assms
  by (auto simp: resolveOptimizedModule_def Let_def split: if_splits option.splits)

lemma nodeModule_keeps:
  "viteOptimizedMap (snd (resolveNodeModule X fs rootDir ident' st)) = viteOptimizedMap st"
  by (auto simp: resolveNodeModule_def Let_def split: if_splits option.splits json.splits)

lemma nodeModuleFile_keeps:
  "viteOptimizedMap (snd (resolveNodeModuleFile X fs rootDir ident' st)) = viteOptimizedMap st"
  by (auto simp: resolveNodeModuleFile_def Let_def split: if_splits option.splits)

lemma defaultRequestToFile_keeps:
  assumes "viteOptimizedMap st ident = Some file" "file \<noteq> []"
  shows "viteOptimizedMap (snd (defaultRequestToFile X fs publicPath rootDir st)) ident = Some file"
proof -
  have k: "viteOptimizedMap (snd (resolveOptimizedModule X fs rootDir i st)) ident = Some file" for i
    using assms by (rule optimized_keeps)
  show ?thesis
    using assms k
    by (simp add: defaultRequestToFile_def Let_def case_prod_beta nodeModuleFile_keeps
        split: option.splits)
qed

lemma resolveRequest_keeps:
  assumes "viteOptimizedMap st ident = Some file" "file \<noteq> []"
  shows "viteOptimizedMap (snd (resolveRequest X fs rootDir resolvers publicPath st)) ident = Some file"
  using assms defaultRequestToFile_keeps [OF assms, of X fs publicPath rootDir]
  by (simp add: resolveRequest_def Let_def case_prod_beta split: option.splits)

lemma warn_keeps [simp]: "viteOptimizedMap (warn d st) = viteOptimizedMap st"
  by (simp add: warn_def)

lemma bare_keeps:
  assumes "viteOptimizedMap st ident = Some file" "file \<noteq> []"
  shows "viteOptimizedMap (snd (resolveBareModuleRequest X fs rootDir ident' importer st)) ident = Some file"
proof -
  let ?st1 = "snd (resolveOptimizedModule X fs rootDir ident' st)"
  have k1: "viteOptimizedMap ?st1 ident = Some file"
    using assms by (rule optimized_keeps)
  let ?st2 = "snd (resolveNodeModule X fs rootDir ident' ?st1)"
  have k2: "viteOptimizedMap ?st2 ident = Some file"
    using k1 by (simp add: nodeModule_keeps)
  have k3: "viteOptimizedMap (snd (resolveOptimizedModule X fs rootDir i ?st2)) ident = Some file" for i
    using k2 assms(2) by (rule optimized_keeps)
  show ?thesis
    using k1 k2 k3
    by (simp add: resolveBareModuleRequest_def Let_def case_prod_beta
        split: option.splits sum.splits prod.splits)
qed

lemma perform_keeps:
  assumes "viteOptimizedMap st ident = Some file" "file \<noteq> []"
  shows "viteOptimizedMap (perform X c st) ident = Some file"
  using assms
  by (cases c)
     (simp_all add: requestToFile_def resolver_resolveExt_def case_prod_beta resolveRequest_keeps
        bare_keeps optimized_keeps nodeModule_keeps nodeModuleFile_keeps)

lemma fold_perform_keeps:
  assumes "viteOptimizedMap st ident = Some file" "file \<noteq> []"
  shows "viteOptimizedMap (fold (perform X) calls st) ident = Some file"
  using assms by (induction calls arbitrary: st) (simp_all add: perform_keeps)

text \<open>
  Claim C7. A lookup that finds the artifact of an identifier records it, and from then
  on every lookup of that identifier, after any calls into the module, with any file
  system and any root, returns the recorded path and leaves the state as it is: the file
  system is not read again. A lookup that finds nothing changes no table, so that a
  later lookup reads the file system again and finds an artifact that has appeared.
\<close>

theorem optimized_hits_memoized:
  "(resolveOptimizedModule X fs rootDir ident st = (Some artifact, st1) \<longrightarrow>
      resolveOptimizedModule X fs' rootDir' ident (fold (perform X) calls st1) =
        (Some artifact, fold (perform X) calls st1)) \<and>
   (resolveOptimizedModule X fs rootDir ident st = (None, st1) \<longrightarrow>
      st1 = st \<and>
      (resolveOptimizedCacheDir X rootDir = Some cacheDir \<and> cacheDir \<noteq> [] \<and>
       existsSync fs' (path_join [cacheDir, ident]) \<longrightarrow>
         fst (resolveOptimizedModule X fs' rootDir ident st1) = Some (path_join [cacheDir, ident])))"
proof (intro conjI impI)
  assume hit: "resolveOptimizedModule X fs rootDir ident st = (Some artifact, st1)"
  then have t: "artifact \<noteq> []" and m: "viteOptimizedMap st1 ident = Some artifact"
    using optimized_result_truthy by blast+
  have "viteOptimizedMap (fold (perform X) calls st1) ident = Some artifact"
    using m t by (rule fold_perform_keeps)
  then show "resolveOptimizedModule X fs' rootDir' ident (fold (perform X) calls st1) =
        (Some artifact, fold (perform X) calls st1)"
    using t by (rule optimized_memo_hit)
next
  assume miss: "resolveOptimizedModule X fs rootDir ident st = (None, st1)"
  then show same: "st1 = st" by (rule optimized_miss_unchanged)
  assume later: "resolveOptimizedCacheDir X rootDir = Some cacheDir \<and> cacheDir \<noteq> [] \<and>
       existsSync fs' (path_join [cacheDir, ident])"
  have "\<not> truthyStr (viteOptimizedMap st ident)"
    using miss by (auto simp: resolveOptimizedModule_def split: if_splits)
  then show "fst (resolveOptimizedModule X fs' rootDir ident st1) = Some (path_join [cacheDir, ident])"
    using later same by (simp add: resolveOptimizedModule_def Let_def)
qed

section \<open>The entry point of a package\<close>

lemma truthy_Some_cases:
  "truthy (Some v) \<longleftrightarrow>
     (case v of JNull \<Rightarrow> False | JBool b \<Rightarrow> b | JNum n \<Rightarrow> n \<noteq> 0 | JStr s \<Rightarrow> s \<noteq> []
      | JArr xs \<Rightarrow> True | JObj ms \<Rightarrow> True)"
  by (cases v) simp_all

text \<open>
  Claim C5. The entry point the code reads from a manifest is the one the six rules of
  the specification name: a string \<^verbatim>\<open>exports\<close>, else a string
  \<^verbatim>\<open>exports["."]\<close>, else \<^verbatim>\<open>exports["."].import\<close>, else \<^verbatim>\<open>module\<close>,
  else \<^verbatim>\<open>main\<close>, else none.
\<close>

theorem entry_precedence: "entryPointOf manifest = spec_entryPoint manifest"
proof (cases "getProp manifest ''exports''")
  case None
  then show ?thesis
    by (simp add: entryPointOf_def spec_entryPoint_def definedString_def memberOf_def orNull_def)
next
  case (Some e)
  show ?thesis
  proof (cases e)
    case (JStr s)
    with Some show ?thesis
      by (simp add: entryPointOf_def spec_entryPoint_def definedString_def memberOf_def orNull_def)
  next
    case (JObj ms)
    show ?thesis
    proof (cases "map_of ms ''.''")
      case None
      with Some JObj show ?thesis
        by (simp add: entryPointOf_def spec_entryPoint_def definedString_def memberOf_def orNull_def)
    next
      case (Some d)
      have a: "getProp e ''.'' = Some d" using JObj Some by simp
      show ?thesis
        using \<open>getProp manifest ''exports'' = Some e\<close> JObj a
        by (cases d)
           (auto simp: entryPointOf_def spec_entryPoint_def definedString_def memberOf_def
              orNull_def Let_def split: option.splits)
    qed
  qed (use Some in \<open>simp_all add: entryPointOf_def spec_entryPoint_def definedString_def
         memberOf_def orNull_def\<close>)
qed

section \<open>Bare imports of optimized dependencies\<close>

text \<open>
  Claim C6. When an optimized artifact exists for a bare identifier, recorded by an
  earlier lookup or present in the cache directory, \<open>resolveBareModuleRequest\<close>
  returns the identifier as it is. The package resolver is not consulted: the state
  after the call is the state after the lookup of the artifact alone, whatever
  \<^verbatim>\<open>node_modules\<close> holds.
\<close>

theorem optimized_shadows_package:
  assumes "truthyStr (viteOptimizedMap st ident) \<or>
           (\<exists>cacheDir. resolveOptimizedCacheDir X rootDir = Some cacheDir \<and> cacheDir \<noteq> [] \<and>
              existsSync fs (path_join [cacheDir, ident]))"
  shows "fst (resolveBareModuleRequest X fs rootDir ident importer st) = Inr ident \<and>
         snd (resolveBareModuleRequest X fs rootDir ident importer st) =
           snd (resolveOptimizedModule X fs rootDir ident st)"
proof -
  have "truthyStr (fst (resolveOptimizedModule X fs rootDir ident st))"
    using assms
    by (auto simp: resolveOptimizedModule_def Let_def path_join_nonempty)
  then show ?thesis
    by (simp add: resolveBareModuleRequest_def case_prod_beta)
qed

section \<open>The two directions of the resolver\<close>





lemma nodeModuleFile_idToFileMap [simp]:
  "idToFileMap (snd (resolveNodeModuleFile X fs rootDir ident st)) = idToFileMap st"
  by (auto simp: resolveNodeModuleFile_def split: option.splits)

lemma optimized_idToFileMap [simp]:
  "idToFileMap (snd (resolveOptimizedModule X fs rootDir ident st)) = idToFileMap st"
  by (auto simp: resolveOptimizedModule_def Let_def split: option.splits)






section \<open>The resolver theorems at concrete inputs\<close>

lemma ex_optimized_lookup:
  "fst (resolveOptimizedModule ex_resolver_env ex_fs_optimized ''/app'' ''foo'' ex_rstate) =
     Some ''/app/node_modules/.vite_opt_cache/foo''"
  by code_simp

lemma ex_optimized_miss:
  "fst (resolveOptimizedModule ex_resolver_env ex_fs ''/app'' ''foo'' ex_rstate) = None"
  by code_simp

lemma ex_cache_dir:
  "resolveOptimizedCacheDir ex_resolver_env ''/app'' = Some ''/app/node_modules/.vite_opt_cache''"
  by code_simp

lemma ex_artifact_exists:
  "existsSync ex_fs_optimized (path_join [''/app/node_modules/.vite_opt_cache'', ''foo''])"
  by code_simp

lemma ex_artifact_path:
  "path_join [''/app/node_modules/.vite_opt_cache'', ''foo''] =
     ''/app/node_modules/.vite_opt_cache/foo''"
  by code_simp

lemma ex_package_entry:
  "fst (resolveBareModuleRequest ex_resolver_env ex_fs ''/app'' ''foo'' ''/src/main.js'' ex_rstate) =
     Inr ''foo/a.js''"
  by code_simp


theorem entry_precedence_witness:
  "entryPointOf ex_manifest = JStr ''./a.js'' \<and>
   map_option entry
     (projr (fst (resolveNodeModule ex_resolver_env ex_fs ''/app'' ''foo'' ex_rstate))) =
     Some (Some ''foo/a.js'')"
proof -
  have a: "spec_entryPoint ex_manifest = JStr ''./a.js''"
    by code_simp
  have b: "map_option entry
             (projr (fst (resolveNodeModule ex_resolver_env ex_fs ''/app'' ''foo'' ex_rstate))) =
           Some (Some ''foo/a.js'')"
    by code_simp
  show ?thesis
    using entry_precedence [of ex_manifest] a b by simp
qed

theorem optimized_shadows_package_witness:
  "fst (resolveBareModuleRequest ex_resolver_env ex_fs_optimized ''/app'' ''foo'' ''/src/main.js''
          ex_rstate) = Inr ''foo'' \<and>
   fst (resolveBareModuleRequest ex_resolver_env ex_fs ''/app'' ''foo'' ''/src/main.js'' ex_rstate) =
     Inr ''foo/a.js''"
proof -
  have "\<exists>cacheDir. resolveOptimizedCacheDir ex_resolver_env ''/app'' = Some cacheDir \<and>
          cacheDir \<noteq> [] \<and> existsSync ex_fs_optimized (path_join [cacheDir, ''foo''])"
    using ex_cache_dir ex_artifact_exists by auto
  then show ?thesis
    using optimized_shadows_package
            [of ex_rstate "''foo''" ex_resolver_env "''/app''" ex_fs_optimized "''/src/main.js''"]
      ex_package_entry
    by simp
qed

theorem optimized_hits_memoized_witness:
  "fst (resolveOptimizedModule ex_resolver_env ex_fs ''/elsewhere'' ''foo''
          (fold (perform ex_resolver_env) [CallNodeModule ex_fs ''/app'' ''foo'']
             (snd (resolveOptimizedModule ex_resolver_env ex_fs_optimized ''/app'' ''foo'' ex_rstate)))) =
     Some ''/app/node_modules/.vite_opt_cache/foo'' \<and>
   fst (resolveOptimizedModule ex_resolver_env ex_fs ''/app'' ''foo'' ex_rstate) = None \<and>
   fst (resolveOptimizedModule ex_resolver_env ex_fs_optimized ''/app'' ''foo''
          (snd (resolveOptimizedModule ex_resolver_env ex_fs ''/app'' ''foo'' ex_rstate))) =
     Some ''/app/node_modules/.vite_opt_cache/foo''"
proof -
  let ?p = "''/app/node_modules/.vite_opt_cache/foo''"
  let ?hit = "resolveOptimizedModule ex_resolver_env ex_fs_optimized ''/app'' ''foo'' ex_rstate"
  let ?miss = "resolveOptimizedModule ex_resolver_env ex_fs ''/app'' ''foo'' ex_rstate"
  have hit: "?hit = (Some ?p, snd ?hit)"
    using ex_optimized_lookup by (simp add: prod_eq_iff)
  have miss: "?miss = (None, snd ?miss)"
    using ex_optimized_miss by (simp add: prod_eq_iff)
  have first: "fst (resolveOptimizedModule ex_resolver_env ex_fs ''/elsewhere'' ''foo''
          (fold (perform ex_resolver_env) [CallNodeModule ex_fs ''/app'' ''foo''] (snd ?hit))) = Some ?p"
    using optimized_hits_memoized
            [where X = ex_resolver_env and fs = ex_fs_optimized and rootDir = "''/app''"
               and ident = "''foo''" and st = ex_rstate and artifact = ?p and ?st1.0 = "snd ?hit"
               and fs' = ex_fs and rootDir' = "''/elsewhere''"
               and calls = "[CallNodeModule ex_fs ''/app'' ''foo'']"
               and cacheDir = "''/app/node_modules/.vite_opt_cache''"]
      hit
    by simp
  have third: "fst (resolveOptimizedModule ex_resolver_env ex_fs_optimized ''/app'' ''foo'' (snd ?miss)) =
                 Some ?p"
    using optimized_hits_memoized
            [where X = ex_resolver_env and fs = ex_fs and rootDir = "''/app''"
               and ident = "''foo''" and st = ex_rstate and artifact = ?p and ?st1.0 = "snd ?miss"
               and fs' = ex_fs_optimized and rootDir' = "''/app''"
               and calls = "[]"
               and cacheDir = "''/app/node_modules/.vite_opt_cache''"]
      miss ex_cache_dir ex_artifact_exists ex_artifact_path
    by simp
  show ?thesis using first ex_optimized_miss third by simp
qed

end
